theory Spec2Isabelle
  imports Main
begin

section \<open>JavaScript values and property access\<close>

text \<open>
  The service in \<^verbatim>\<open>src/lib/http.service.ts\<close> handles values typed \<^verbatim>\<open>any\<close>: the response
  and the error object that the HTTP library hands over. They are modelled as JSON-like
  values. Numbers are the integral ones (HTTP status codes are); an object is an
  association list from keys to values, the first binding of a key being the one read.
  Objects are plain data, without accessor properties: reading a member of an object
  runs no code and cannot throw.
\<close>

datatype jsval =
    Undefined
  | Null
  | JBool bool
  | JNum int
  | JStr string
  | JArr "jsval list"
  | JObj "(string \<times> jsval) list"

fun nullish :: "jsval \<Rightarrow> bool" where
  "nullish Undefined = True"
| "nullish Null = True"
| "nullish _ = False"

text \<open>
  Reading a property of \<^verbatim>\<open>undefined\<close> or \<^verbatim>\<open>null\<close> throws a TypeError. The thrown value is
  an error object carrying a \<^verbatim>\<open>message\<close> (the engine's text) and no \<^verbatim>\<open>response\<close>.
\<close>

definition type_error :: "jsval \<Rightarrow> string \<Rightarrow> jsval" where
  "type_error v k =
     JObj [(''name'', JStr ''TypeError''),
           (''message'', JStr (''Cannot read properties of ''
              @ (if v = Null then ''null'' else ''undefined'')
              @ '' (reading '' @ [CHR 0x27] @ k @ [CHR 0x27] @ '')''))]"

text \<open>
  \<open>get_prop v k\<close> is the member access \<^verbatim>\<open>v.k\<close>; \<open>Inl\<close> is a thrown value. The keys this
  program reads are \<^verbatim>\<open>response\<close>, \<^verbatim>\<open>status\<close>, \<^verbatim>\<open>data\<close> and \<^verbatim>\<open>message\<close>: none of them is a
  property of a boolean, a number, a string or an array, so the access gives
  \<^verbatim>\<open>undefined\<close> there.
\<close>

fun get_prop :: "jsval \<Rightarrow> string \<Rightarrow> jsval + jsval" where
  "get_prop Undefined k = Inl (type_error Undefined k)"
| "get_prop Null k = Inl (type_error Null k)"
| "get_prop (JObj kvs) k = Inr (case map_of kvs k of None \<Rightarrow> Undefined | Some v \<Rightarrow> v)"
| "get_prop _ k = Inr Undefined"

text \<open>\<open>opt_prop v k\<close> is the optional chaining \<^verbatim>\<open>v?.k\<close>, which never throws.\<close>

fun opt_prop :: "jsval \<Rightarrow> string \<Rightarrow> jsval" where
  "opt_prop (JObj kvs) k = (case map_of kvs k of None \<Rightarrow> Undefined | Some v \<Rightarrow> v)"
| "opt_prop _ k = Undefined"

section \<open>The data model of the service\<close>

text \<open>The \<^verbatim>\<open>error\<close> member of \<^verbatim>\<open>ApiResponse\<close>, as the catch path fills it.\<close>

record failure =
  message :: jsval
  status :: jsval
  errorMessage :: string

text \<open>\<^verbatim>\<open>ApiResponse<T>\<close>: \<^verbatim>\<open>data: T | null\<close> and the optional \<^verbatim>\<open>error\<close>.\<close>

record envelope =
  data :: jsval
  error :: "failure option"

text \<open>
  The module state: \<^verbatim>\<open>authToken\<close> (\<open>None\<close> is \<^verbatim>\<open>null\<close>) and the default headers
  \<^verbatim>\<open>http.defaults.headers.common\<close> of the client instance.
\<close>

record state =
  authToken :: "string option"
  common :: "string \<rightharpoonup> string"

datatype http_method = Get | Post | Put | Patch | Delete

text \<open>
  A request as the transport receives it: the method and the two arguments of
  \<^verbatim>\<open>http[method](url, data)\<close>, and the base URL and the headers that the request carries.
\<close>

record call =
  c_method :: http_method
  c_baseURL :: jsval
  c_url :: string
  c_arg :: jsval
  c_headers :: "string \<rightharpoonup> jsval"

text \<open>How the promise of the HTTP library settles, before any interceptor runs.\<close>

datatype outcome = Fulfilled jsval | Rejected jsval

type_synonym transport = "call \<Rightarrow> outcome"

section \<open>The functions of the service\<close>

text \<open>\<^verbatim>\<open>getErrorMessage\<close>: a \<^verbatim>\<open>switch\<close>, which compares with strict equality.\<close>

definition getErrorMessage :: "jsval \<Rightarrow> string" where
  "getErrorMessage s =
     (if s = JNum 400 then ''Bad Request''
      else if s = JNum 401 then ''Unauthorized''
      else if s = JNum 403 then ''Forbidden''
      else if s = JNum 404 then ''Not Found''
      else if s = JNum 500 then ''Internal Server Error''
      else ''Error'')"

text \<open>
  The truth value of \<^verbatim>\<open>token\<close> in \<^verbatim>\<open>token ? `Bearer ${token}` : ""\<close>: \<^verbatim>\<open>null\<close> and the empty
  string are falsy, every other string is truthy.
\<close>

fun truthy :: "string option \<Rightarrow> bool" where
  "truthy None = False"
| "truthy (Some []) = False"
| "truthy (Some (c # cs)) = True"

definition bearer :: "string option \<Rightarrow> string" where
  "bearer token = (if truthy token then ''Bearer '' @ the token else '''')"

text \<open>
  Module initialisation: \<^verbatim>\<open>authToken = null\<close>, then the \<^verbatim>\<open>Authorization\<close> default header is
  set from it. The parameter is the default headers the library creates the instance with.
\<close>

definition module_init :: "(string \<rightharpoonup> string) \<Rightarrow> state" where
  "module_init hs = \<lparr>authToken = None, common = hs(''Authorization'' \<mapsto> bearer None)\<rparr>"


text \<open>
  The error handler of \<^verbatim>\<open>http.interceptors.response.use\<close>. It returns a rejected promise;
  \<open>on_rejected e\<close> is the reason of that rejection: the normalised object, or the
  TypeError thrown by \<^verbatim>\<open>error.response\<close> when \<^verbatim>\<open>error\<close> is \<^verbatim>\<open>undefined\<close> or \<^verbatim>\<open>null\<close>.
\<close>

definition on_rejected :: "jsval \<Rightarrow> jsval" where
  "on_rejected err =
     (case get_prop err ''response'' of
        Inl t \<Rightarrow> t
      | Inr r \<Rightarrow>
          (let stat = opt_prop r ''status'';
               m = opt_prop (opt_prop r ''data'') ''message''
           in case (if nullish m then get_prop err ''message'' else Inr m) of
                Inl t \<Rightarrow> t
              | Inr msg \<Rightarrow>
                  JObj [(''message'', msg), (''status'', stat),
                        (''errorMessage'', JStr (getErrorMessage stat))]))"

fun response_interceptor :: "outcome \<Rightarrow> outcome" where
  "response_interceptor (Fulfilled response) = Fulfilled response"
| "response_interceptor (Rejected err) = Rejected (on_rejected err)"

text \<open>
  The methods of the client instance take the request config at different places:
  \<^verbatim>\<open>get(url, config)\<close> and \<^verbatim>\<open>delete(url, config)\<close>, but \<^verbatim>\<open>post(url, data, config)\<close>, and
  likewise \<^verbatim>\<open>put\<close> and \<^verbatim>\<open>patch\<close>. The source calls \<^verbatim>\<open>http[method](url, data)\<close> for all five, so
  what it calls \<^verbatim>\<open>data\<close> is the request config of a get or a delete, and the body of a
  post, put or patch, which then has no request config.
\<close>

fun request_config :: "http_method \<Rightarrow> jsval \<Rightarrow> jsval" where
  "request_config Get d = d"
| "request_config Delete d = d"
| "request_config m d = Undefined"

text \<open>Header names are matched without regard to case, as the library matches them.\<close>

definition lower :: "char \<Rightarrow> char" where
  "lower c =
     (case map_of (zip ''ABCDEFGHIJKLMNOPQRSTUVWXYZ'' ''abcdefghijklmnopqrstuvwxyz'') c of
        None \<Rightarrow> c
      | Some l \<Rightarrow> l)"

fun find_header :: "(string \<times> jsval) list \<Rightarrow> string \<Rightarrow> jsval option" where
  "find_header [] k = None"
| "find_header ((n, v) # kvs) k =
     (if map lower n = map lower k then Some v else find_header kvs k)"

text \<open>The header named \<open>k\<close> that a call brings in its own request config, if any.\<close>

definition own_header :: "http_method \<Rightarrow> jsval \<Rightarrow> string \<Rightarrow> jsval option" where
  "own_header m d k =
     (case opt_prop (request_config m d) ''headers'' of
        JObj kvs \<Rightarrow> find_header kvs k
      | _ \<Rightarrow> None)"

text \<open>
  The request the library sends for \<^verbatim>\<open>http[method](url, data)\<close>: the instance defaults (the
  base URL given to \<^verbatim>\<open>axios.create\<close>, the default headers of that moment) merged with the
  request config, whose members take precedence. A header of the request config is kept
  as the value it was given.
\<close>

definition config :: "state \<Rightarrow> http_method \<Rightarrow> string \<Rightarrow> jsval \<Rightarrow> call" where
  "config st m url d =
     \<lparr>c_method = m,
      c_baseURL = (let b = opt_prop (request_config m d) ''baseURL''
                   in if b = Undefined then JStr ''http://localhost:3000/v1'' else b),
      c_url = url, c_arg = d,
      c_headers = (\<lambda>k. case own_header m d k of
                          Some v \<Rightarrow> Some v
                        | None \<Rightarrow> map_option JStr (common st k))\<rparr>"

text \<open>
  \<^verbatim>\<open>await http[method](url, data)\<close>: what a caller of the client instance observes, the
  interceptor included.
\<close>

definition http_call :: "transport \<Rightarrow> state \<Rightarrow> http_method \<Rightarrow> string \<Rightarrow> jsval \<Rightarrow> outcome" where
  "http_call tr st m url d = response_interceptor (tr (config st m url d))"

text \<open>
  The \<^verbatim>\<open>catch\<close> block of \<^verbatim>\<open>request\<close>. \<open>Inl\<close> is a value thrown out of the block, which
  rejects the promise of the \<^verbatim>\<open>async\<close> function.
\<close>

definition catch_path :: "jsval \<Rightarrow> jsval + envelope" where
  "catch_path err =
     (let stat = opt_prop (opt_prop err ''response'') ''status'';
          m = opt_prop (opt_prop (opt_prop err ''response'') ''data'') ''message''
      in case (if nullish m then get_prop err ''message'' else Inr m) of
           Inl t \<Rightarrow> Inl t
         | Inr msg \<Rightarrow>
             Inr \<lparr>data = Null,
                  error = Some \<lparr>message = msg, status = stat,
                                errorMessage = getErrorMessage stat\<rparr>\<rparr>)"

text \<open>
  \<^verbatim>\<open>request\<close>: the settled promise (\<open>Inr\<close> resolved, \<open>Inl\<close> rejected) and the module state
  after the call.
\<close>

definition request ::
  "transport \<Rightarrow> state \<Rightarrow> http_method \<Rightarrow> string \<Rightarrow> jsval \<Rightarrow> (jsval + envelope) \<times> state" where
  "request tr st m url d =
     ((case http_call tr st m url d of
         Fulfilled response \<Rightarrow>
           (case get_prop response ''data'' of
              Inl t \<Rightarrow> catch_path t
            | Inr payload \<Rightarrow> Inr \<lparr>data = payload, error = None\<rparr>)
       | Rejected err \<Rightarrow> catch_path err),
      st)"

text \<open>The wrappers, called as methods of \<^verbatim>\<open>HttpService\<close>; an omitted argument is \<^verbatim>\<open>undefined\<close>.\<close>

definition get :: "transport \<Rightarrow> state \<Rightarrow> string \<Rightarrow> (jsval + envelope) \<times> state" where
  "get tr st url = request tr st Get url Undefined"

definition post :: "transport \<Rightarrow> state \<Rightarrow> string \<Rightarrow> jsval \<Rightarrow> (jsval + envelope) \<times> state" where
  "post tr st url d = request tr st Post url d"

definition put :: "transport \<Rightarrow> state \<Rightarrow> string \<Rightarrow> jsval \<Rightarrow> (jsval + envelope) \<times> state" where
  "put tr st url d = request tr st Put url d"

definition patch :: "transport \<Rightarrow> state \<Rightarrow> string \<Rightarrow> jsval \<Rightarrow> (jsval + envelope) \<times> state" where
  "patch tr st url d = request tr st Patch url d"

definition delete :: "transport \<Rightarrow> state \<Rightarrow> string \<Rightarrow> (jsval + envelope) \<times> state" where
  "delete tr st url = request tr st Delete url Undefined"

section \<open>Transports and error objects used as concrete inputs\<close>

text \<open>
  The error the HTTP library rejects with on a 404 response (it carries the response),
  and the one it rejects with when no response arrived.
\<close>

definition http_404_error :: jsval where
  "http_404_error =
     JObj [(''message'', JStr ''Request failed with status code 404''),
           (''response'', JObj [(''status'', JNum 404), (''data'', JStr [])])]"

definition network_error :: jsval where
  "network_error = JObj [(''message'', JStr ''Network Error'')]"

definition mock_404 :: transport where
  "mock_404 c = Rejected http_404_error"

definition mock_network_error :: transport where
  "mock_network_error c = Rejected network_error"

text \<open>A 500 response whose body carries the server's own message.\<close>

definition http_500_error :: jsval where
  "http_500_error =
     JObj [(''message'', JStr ''Request failed with status code 500''),
           (''response'', JObj [(''status'', JNum 500),
                                (''data'', JObj [(''message'', JStr ''database down'')])])]"

definition mock_500 :: transport where
  "mock_500 c = Rejected http_500_error"

text \<open>A 200 response with the payload \<^verbatim>\<open>{id: 1}\<close>, and one whose JSON body is \<^verbatim>\<open>null\<close>.\<close>

definition mock_ok :: transport where
  "mock_ok c = Fulfilled (JObj [(''data'', JObj [(''id'', JNum 1)]), (''status'', JNum 200)])"

definition mock_null_body :: transport where
  "mock_null_body c = Fulfilled (JObj [(''data'', Null), (''status'', JNum 200)])"



definition state0 :: state where
  "state0 = module_init Map.empty"

section \<open>Predicates on results\<close>

text \<open>The promise returned by a call resolved (with an envelope) rather than rejected.\<close>

fun resolved :: "(jsval + envelope) \<times> state \<Rightarrow> bool" where
  "resolved (Inr env, st) = True"
| "resolved (Inl t, st) = False"

text \<open>
  The invariant as the specification words it: exactly one of "payload present"
  (\<^verbatim>\<open>data\<close> is not \<^verbatim>\<open>null\<close>) and "failure record present" holds.
\<close>

definition exactly_one_populated :: "envelope \<Rightarrow> bool" where
  "exactly_one_populated env = ((data env \<noteq> Null) \<noteq> (error env \<noteq> None))"

text \<open>
  What the code gives instead, for a call whose transport settled as \<open>oc\<close>: the call
  resolved; an envelope with a failure record has \<^verbatim>\<open>data\<close> \<^verbatim>\<open>null\<close>; an envelope without one
  comes from a fulfilled transport and its \<^verbatim>\<open>data\<close> is the \<^verbatim>\<open>data\<close> of that response,
  whatever it is.
\<close>

definition sides_ok :: "outcome \<Rightarrow> (jsval + envelope) \<times> state \<Rightarrow> bool" where
  "sides_ok oc r =
     (case fst r of
        Inl t \<Rightarrow> False
      | Inr env \<Rightarrow>
          (case error env of
             Some f \<Rightarrow> data env = Null
           | None \<Rightarrow>
               (case oc of
                  Fulfilled response \<Rightarrow> get_prop response ''data'' = Inr (data env)
                | Rejected err \<Rightarrow> False)))"

section \<open>Helper lemmas\<close>

lemma type_error_not_nullish: "\<not> nullish (type_error v k)"
  by (simp add: type_error_def)

lemma get_prop_throws: "get_prop v k = Inl t \<Longrightarrow> \<not> nullish t"
  by (cases v) (auto simp: type_error_not_nullish)

lemma on_rejected_not_nullish: "\<not> nullish (on_rejected e)"
  by (cases e) (auto simp: on_rejected_def type_error_def Let_def split: sum.splits)

lemma catch_path_resolves:
  "\<not> nullish e \<Longrightarrow> \<exists>f. catch_path e = Inr \<lparr>data = Null, error = Some f\<rparr>"
  by (cases e) (auto simp: catch_path_def Let_def split: sum.splits)

lemma http_call_rejected: "http_call tr st m u d = Rejected e \<Longrightarrow> \<not> nullish e"
  by (cases "tr (config st m u d)") (auto simp: http_call_def on_rejected_not_nullish)

lemma http_call_fulfilled:
  "http_call tr st m u d = Fulfilled r \<longleftrightarrow> tr (config st m u d) = Fulfilled r"
  by (cases "tr (config st m u d)") (auto simp: http_call_def)

text \<open>
  The two ways \<^verbatim>\<open>request\<close> ends: the \<^verbatim>\<open>return\<close> of the \<^verbatim>\<open>try\<close> block, or the \<^verbatim>\<open>return\<close> of the
  \<^verbatim>\<open>catch\<close> block. The \<^verbatim>\<open>catch\<close> block itself cannot throw, because what reaches it is never
  \<^verbatim>\<open>undefined\<close> or \<^verbatim>\<open>null\<close>.
\<close>

lemma request_cases:
  "(\<exists>r p. tr (config st m u d) = Fulfilled r \<and> get_prop r ''data'' = Inr p
         \<and> fst (request tr st m u d) = Inr \<lparr>data = p, error = None\<rparr>)
   \<or> (\<exists>f. fst (request tr st m u d) = Inr \<lparr>data = Null, error = Some f\<rparr>)"
proof (cases "http_call tr st m u d")
  case (Fulfilled r)
  then have tr: "tr (config st m u d) = Fulfilled r"
    by (simp add: http_call_fulfilled)
  show ?thesis
  proof (cases "get_prop r ''data''")
    case (Inl t)
    then have "\<not> nullish t" by (rule get_prop_throws)
    with Fulfilled Inl show ?thesis
      using catch_path_resolves [of t] by (simp add: request_def)
  next
    case (Inr p)
    with Fulfilled tr show ?thesis by (simp add: request_def)
  qed
next
  case (Rejected e)
  then have "\<not> nullish e" by (rule http_call_rejected)
  with Rejected show ?thesis
    using catch_path_resolves [of e] by (simp add: request_def)
qed

lemma request_resolved: "resolved (request tr st m u d)"
proof -
  obtain env where "fst (request tr st m u d) = Inr env"
    using request_cases [of tr st m u d] by auto
  then show ?thesis by (cases "request tr st m u d") simp
qed

lemma request_sides_ok: "sides_ok (tr (config st m u d)) (request tr st m u d)"
  using request_cases [of tr st m u d] by (auto simp: sides_ok_def)

text \<open>
  Given one and the same error object, the handler of the interceptor and the \<^verbatim>\<open>catch\<close>
  block of \<^verbatim>\<open>request\<close> compute the same three fields.
\<close>

lemma handlers_agree:
  "catch_path e = Inr env \<Longrightarrow>
   \<exists>f. error env = Some f \<and>
       on_rejected e = JObj [(''message'', message f), (''status'', status f),
                             (''errorMessage'', JStr (errorMessage f))]"
  by (cases e) (auto simp: catch_path_def on_rejected_def Let_def split: sum.splits if_splits)

text \<open>
  But \<^verbatim>\<open>request\<close> calls the instance the interceptor is registered on, so its \<^verbatim>\<open>catch\<close> block
  receives what the interceptor rejected with. That object has no \<^verbatim>\<open>response\<close>: whatever
  the transport error was, the \<^verbatim>\<open>catch\<close> block reads no status from it.
\<close>

lemma catch_after_interceptor:
  "\<exists>msg. catch_path (on_rejected e) =
     Inr \<lparr>data = Null,
          error = Some \<lparr>message = msg, status = Undefined, errorMessage = ''Error''\<rparr>\<rparr>"
  by (cases e)
     (auto simp: catch_path_def on_rejected_def type_error_def getErrorMessage_def Let_def
           split: sum.splits)

lemma request_rejected_status:
  "tr (config st m u d) = Rejected e \<Longrightarrow>
   \<exists>msg. fst (request tr st m u d) =
     Inr \<lparr>data = Null,
          error = Some \<lparr>message = msg, status = Undefined, errorMessage = ''Error''\<rparr>\<rparr>"
  using catch_after_interceptor [of e] by (auto simp: request_def http_call_def)

section \<open>The claims\<close>

text \<open>
  C1. The claim: when the transport outcome is an HTTP 404 response, the envelope has
  \<^verbatim>\<open>data\<close> \<^verbatim>\<open>null\<close> and a failure record with status 404 and errorMessage "Not Found". The
  code does not do that: the interceptor has already replaced the error by an object
  without \<^verbatim>\<open>response\<close>, so the envelope's status is \<^verbatim>\<open>undefined\<close> and its errorMessage is
  "Error". This theorem evaluates \<^verbatim>\<open>request\<close> on a transport answering 404.
\<close>

theorem request_404_envelope:
  "fst (request mock_404 state0 Get ''/users/1'' Undefined) =
     Inr \<lparr>data = Null,
          error = Some \<lparr>message = JStr ''Request failed with status code 404'',
                        status = Undefined, errorMessage = ''Error''\<rparr>\<rparr>"
  by (simp add: request_def http_call_def mock_404_def http_404_error_def on_rejected_def
        catch_path_def getErrorMessage_def)

text \<open>
  C2 as stated (exactly one of payload and failure record is present, never neither)
  fails when a request succeeds with the payload \<^verbatim>\<open>null\<close>: the envelope then has \<^verbatim>\<open>data\<close>
  \<^verbatim>\<open>null\<close> and no failure record.
\<close>

theorem null_payload_neither_side:
  "fst (request mock_null_body state0 Get ''/users/1'' Undefined) = Inr \<lparr>data = Null, error = None\<rparr>
   \<and> \<not> exactly_one_populated \<lparr>data = Null, error = None\<rparr>"
  by (simp add: request_def http_call_def mock_null_body_def exactly_one_populated_def)

text \<open>
  C2, amended. Every call of \<^verbatim>\<open>request\<close> or of a wrapper resolves with an envelope that
  either has a failure record and \<^verbatim>\<open>data\<close> \<^verbatim>\<open>null\<close>, or has no failure record and carries
  the \<^verbatim>\<open>data\<close> of a response the transport fulfilled with (which may be \<^verbatim>\<open>null\<close>). So a
  non-null payload and a failure record are never present together.
\<close>

theorem envelope_sides:
  "sides_ok (tr (config st m u d)) (request tr st m u d)
   \<and> sides_ok (tr (config st Get u Undefined)) (get tr st u)
   \<and> sides_ok (tr (config st Post u d)) (post tr st u d)
   \<and> sides_ok (tr (config st Put u d)) (put tr st u d)
   \<and> sides_ok (tr (config st Patch u d)) (patch tr st u d)
   \<and> sides_ok (tr (config st Delete u Undefined)) (delete tr st u)"
  by (simp add: get_def post_def put_def patch_def delete_def request_sides_ok)

theorem envelope_sides_witness:
  "sides_ok (Rejected http_404_error) (request mock_404 state0 Get ''/users/1'' Undefined)
   \<and> sides_ok (Fulfilled (JObj [(''data'', Null), (''status'', JNum 200)]))
        (get mock_null_body state0 ''/users/1'')"
  using envelope_sides [of mock_404 state0 Get "''/users/1''" Undefined]
        envelope_sides [of mock_null_body state0 Get "''/users/1''" Undefined]
  by (simp add: mock_404_def mock_null_body_def)

text \<open>
  C3. Whatever the method, the path, the body and the way the transport settles,
  \<^verbatim>\<open>request\<close> and each wrapper resolve with an envelope; none of them rejects.
\<close>

theorem request_never_rejects:
  "resolved (request tr st m u d) \<and> resolved (get tr st u) \<and> resolved (post tr st u d)
   \<and> resolved (put tr st u d) \<and> resolved (patch tr st u d) \<and> resolved (delete tr st u)"
  by (simp add: get_def post_def put_def patch_def delete_def request_resolved)

theorem request_never_rejects_witness:
  "resolved (request (\<lambda>c. Rejected Undefined) state0 Post ''/users'' Null)
   \<and> resolved (get (\<lambda>c. Fulfilled Undefined) state0 ''/users'')"
  using request_never_rejects [of "\<lambda>c. Rejected Undefined" state0 Post "''/users''" Null]
        request_never_rejects [of "\<lambda>c. Fulfilled Undefined" state0 Post "''/users''" Null]
  by simp




text \<open>
  C5. \<^verbatim>\<open>getErrorMessage\<close> is the fixed table: 400, 401, 403, 404 and 500 have their
  labels, and every other input (an unknown code such as 418, an absent status) gives
  "Error". It is total and always returns a string.
\<close>

theorem getErrorMessage_table:
  "getErrorMessage (JNum 400) = ''Bad Request''
   \<and> getErrorMessage (JNum 401) = ''Unauthorized''
   \<and> getErrorMessage (JNum 403) = ''Forbidden''
   \<and> getErrorMessage (JNum 404) = ''Not Found''
   \<and> getErrorMessage (JNum 500) = ''Internal Server Error''
   \<and> (s \<notin> {JNum 400, JNum 401, JNum 403, JNum 404, JNum 500} \<longrightarrow> getErrorMessage s = ''Error'')"
  by (simp add: getErrorMessage_def)

theorem getErrorMessage_table_witness:
  "JNum 418 \<notin> {JNum 400, JNum 401, JNum 403, JNum 404, JNum 500}
   \<and> getErrorMessage (JNum 418) = ''Error''
   \<and> Undefined \<notin> {JNum 400, JNum 401, JNum 403, JNum 404, JNum 500}
   \<and> getErrorMessage Undefined = ''Error''"
  using getErrorMessage_table [of "JNum 418"] getErrorMessage_table [of Undefined]
  by simp

text \<open>
  C6. Each wrapper returns what \<^verbatim>\<open>request\<close> returns for its method and the same
  arguments.
\<close>

theorem wrappers_are_request:
  "get tr st u = request tr st Get u Undefined
   \<and> post tr st u d = request tr st Post u d
   \<and> put tr st u d = request tr st Put u d
   \<and> patch tr st u d = request tr st Patch u d
   \<and> delete tr st u = request tr st Delete u Undefined"
  by (simp add: get_def post_def put_def patch_def delete_def)

text \<open>
  C7. When the transport rejects with an error that carries no response, the envelope
  has \<^verbatim>\<open>data\<close> \<^verbatim>\<open>null\<close> and a failure record whose status is \<^verbatim>\<open>undefined\<close> and whose
  errorMessage is "Error" (its message is the message of the error).
\<close>

theorem request_network_failure:
  assumes "tr (config st m u d) = Rejected e"
    and "get_prop e ''response'' = Inr r" and "nullish r"
    and "get_prop e ''message'' = Inr msg"
  shows "fst (request tr st m u d) =
     Inr \<lparr>data = Null,
          error = Some \<lparr>message = msg, status = Undefined, errorMessage = ''Error''\<rparr>\<rparr>"
proof -
  have r: "opt_prop r k = Undefined" for k
    using assms(3) by (cases r) simp_all
  have "on_rejected e = JObj [(''message'', msg), (''status'', Undefined),
                             (''errorMessage'', JStr ''Error'')]"
    using assms(2,4) by (simp add: on_rejected_def r getErrorMessage_def)
  then show ?thesis
    using assms(1) by (simp add: request_def http_call_def catch_path_def getErrorMessage_def)
qed

theorem request_network_failure_witness:
  "mock_network_error (config state0 Get ''/users'' Undefined) = Rejected network_error
   \<and> get_prop network_error ''response'' = Inr Undefined \<and> nullish Undefined
   \<and> get_prop network_error ''message'' = Inr (JStr ''Network Error'')
   \<and> fst (request mock_network_error state0 Get ''/users'' Undefined) =
       Inr \<lparr>data = Null,
            error = Some \<lparr>message = JStr ''Network Error'', status = Undefined,
                          errorMessage = ''Error''\<rparr>\<rparr>"
  using request_network_failure [of mock_network_error state0 Get "''/users''" Undefined
          network_error Undefined "JStr ''Network Error''"]
  by (simp add: mock_network_error_def network_error_def)

text \<open>
  C8. When the transport fulfils with a response whose \<^verbatim>\<open>data\<close> is \<open>p\<close>, the envelope is
  exactly \<^verbatim>\<open>{ data: p }\<close>, with no \<^verbatim>\<open>error\<close> member.
\<close>

theorem request_success:
  assumes "tr (config st m u d) = Fulfilled r" and "get_prop r ''data'' = Inr p"
  shows "fst (request tr st m u d) = Inr \<lparr>data = p, error = None\<rparr>"
  using assms by (simp add: request_def http_call_def)

theorem request_success_witness:
  "mock_ok (config state0 Get ''/items/1'' Undefined) =
     Fulfilled (JObj [(''data'', JObj [(''id'', JNum 1)]), (''status'', JNum 200)])
   \<and> get_prop (JObj [(''data'', JObj [(''id'', JNum 1)]), (''status'', JNum 200)]) ''data'' =
       Inr (JObj [(''id'', JNum 1)])
   \<and> fst (request mock_ok state0 Get ''/items/1'' Undefined) =
       Inr \<lparr>data = JObj [(''id'', JNum 1)], error = None\<rparr>"
  using request_success [of mock_ok state0 Get "''/items/1''" Undefined
          "JObj [(''data'', JObj [(''id'', JNum 1)]), (''status'', JNum 200)]"
          "JObj [(''id'', JNum 1)]"]
  by (simp add: mock_ok_def)

text \<open>
  C9. The claim: for the same underlying error, a caller of the client instance and a
  caller of the wrapper see the same message, status and errorMessage. The code does not
  do that for an error that carries a status: on a 500 the instance rejects with status
  500 and "Internal Server Error", while \<^verbatim>\<open>request\<close>, which sits behind the same interceptor, resolves
  with status \<^verbatim>\<open>undefined\<close> and "Error".
\<close>

theorem instance_and_wrapper_on_500:
  "http_call mock_500 state0 Post ''/orders'' Null =
     Rejected (JObj [(''message'', JStr ''database down''), (''status'', JNum 500),
                     (''errorMessage'', JStr ''Internal Server Error'')])
   \<and> fst (request mock_500 state0 Post ''/orders'' Null) =
       Inr \<lparr>data = Null,
            error = Some \<lparr>message = JStr ''database down'', status = Undefined,
                          errorMessage = ''Error''\<rparr>\<rparr>"
  by (simp add: request_def http_call_def mock_500_def http_500_error_def on_rejected_def
        catch_path_def getErrorMessage_def)

text \<open>
  C10. \<^verbatim>\<open>request\<close> and the wrappers leave the module state (the token and the default
  headers) as it was; \<^verbatim>\<open>setAuthToken\<close> is the only function that writes it.
\<close>

theorem request_keeps_state:
  "snd (request tr st m u d) = st \<and> snd (get tr st u) = st \<and> snd (post tr st u d) = st
   \<and> snd (put tr st u d) = st \<and> snd (patch tr st u d) = st \<and> snd (delete tr st u) = st"
  by (simp add: get_def post_def put_def patch_def delete_def request_def)

end
